theory Spec2Isabelle
  imports Main
begin

section \<open>Python values and exceptions\<close>

text \<open>
  The module \<^verbatim>\<open>skmultilearn/base.py\<close> is Python 2 code (it calls the builtin
  \<^verbatim>\<open>xrange\<close>). Every exception the module can raise is a constructor of
  \<open>py_error\<close>; a raising call returns \<open>Inl\<close> of it.
\<close>

datatype py_error =
    NotImplementedError string
  | AttributeError string
  | NameError string
  | TypeError
  | IndexError

text \<open>
  The values that the attributes \<^verbatim>\<open>classifier\<close> and \<^verbatim>\<open>require_dense\<close> hold.
  \<open>Estimator ps\<close> is an object with a method \<^verbatim>\<open>get_params\<close> whose call returns the
  dictionary with the items \<open>ps\<close>; \<open>Opaque n\<close> is any other object, named \<open>n\<close>, without
  such a method.
\<close>

datatype pyval =
    PyNone
  | PyBool bool
  | PyInt int
  | PyStr string
  | Estimator "(string \<times> pyval) list"
  | Opaque string

type_synonym pydict = "string \<rightharpoonup> pyval"

text \<open>\<^verbatim>\<open>hasattr(v, 'get_params')\<close>\<close>

fun has_get_params :: "pyval \<Rightarrow> bool" where
  "has_get_params (Estimator ps) = True"
| "has_get_params v = False"

text \<open>\<^verbatim>\<open>v.get_params()\<close>, as the list of items of the returned dictionary.\<close>

fun call_get_params :: "pyval \<Rightarrow> py_error + (string \<times> pyval) list" where
  "call_get_params (Estimator ps) = Inr ps"
| "call_get_params v = Inl (AttributeError ''get_params'')"

text \<open>
  The names bound at module level: the three imports and the two classes. A name that a
  function body reads without assigning it is looked up here (and then among the
  builtins, which hold neither \<^verbatim>\<open>value\<close> nor \<^verbatim>\<open>key\<close>).
\<close>

definition module_globals :: "string list" where
  "module_globals =
     [''copy'', ''np'', ''get_matrix_in_format'', ''issparse'', ''csr_matrix'',
      ''MLClassifierBase'', ''RepeatClassifier'']"

definition lookup_global :: "string \<Rightarrow> py_error + pyval" where
  "lookup_global n = (if n \<in> set module_globals then Inr (Opaque n) else Inl (NameError n))"


section \<open>MLClassifierBase\<close>

record MLClassifierBase =
  classifier :: pyval
  require_dense :: pyval

text \<open>
  \<^verbatim>\<open>__init__(self, classifier = None, require_dense = False)\<close>: an omitted argument is
  \<open>None\<close> here and takes its default.
\<close>

definition MLClassifierBase_init :: "pyval option \<Rightarrow> pyval option \<Rightarrow> MLClassifierBase" where
  "MLClassifierBase_init c r =
     \<lparr>classifier = (case c of None \<Rightarrow> PyNone | Some v \<Rightarrow> v),
      require_dense = (case r of None \<Rightarrow> PyBool False | Some v \<Rightarrow> v)\<rparr>"

text \<open>
  A method that returns \<^verbatim>\<open>self\<close> yields \<open>Inr s\<close>, the attributes of the instance after
  the call; a method that raises yields \<open>Inl (e, s)\<close>, the exception and the attributes
  the instance is left with.
\<close>

type_synonym 's self_result = "(py_error \<times> 's) + 's"

text \<open>The abstract methods: their only statement is the \<^verbatim>\<open>raise\<close>.\<close>

definition MLClassifierBase_fit ::
  "'a MLClassifierBase_scheme \<Rightarrow> 'x \<Rightarrow> 'y \<Rightarrow> 'a MLClassifierBase_scheme self_result" where
  "MLClassifierBase_fit self X y = Inl (NotImplementedError ''MLClassifierBase::fit()'', self)"

definition MLClassifierBase_predict ::
  "'a MLClassifierBase_scheme \<Rightarrow> 'x \<Rightarrow> (py_error \<times> 'a MLClassifierBase_scheme) + 'r" where
  "MLClassifierBase_predict self X =
     Inl (NotImplementedError ''MLClassifierBase::predict()'', self)"

text \<open>
  The generator \<^verbatim>\<open>(key + '__' + k, val) for k, val in deep_items\<close> that
  \<^verbatim>\<open>out.update\<close> consumes: each item evaluates the name \<^verbatim>\<open>key\<close> first.
\<close>

fun update_prefixed :: "pydict \<Rightarrow> (string \<times> pyval) list \<Rightarrow> py_error + pydict" where
  "update_prefixed out [] = Inr out"
| "update_prefixed out ((k, val) # rest) =
     (case lookup_global ''key'' of
        Inl e \<Rightarrow> Inl e
      | Inr (PyStr s) \<Rightarrow> update_prefixed (out(s @ ''__'' @ k \<mapsto> val)) rest
      | Inr v \<Rightarrow> Inl TypeError)"

definition get_params :: "'a MLClassifierBase_scheme \<Rightarrow> bool \<Rightarrow> py_error + pydict" where
  "get_params self deep =
     (let out = Map.empty;
          out = out(''classifier'' \<mapsto> classifier self);
          out = out(''require_dense'' \<mapsto> require_dense self)
      in if deep \<and> has_get_params (classifier self) then
           (case lookup_global ''value'' of
              Inl e \<Rightarrow> Inl e
            | Inr v \<Rightarrow>
                (case call_get_params v of
                   Inl e \<Rightarrow> Inl e
                 | Inr deep_items \<Rightarrow> update_prefixed out deep_items))
         else Inr out)"

text \<open>
  \<^verbatim>\<open>self.setattr(parameter, value)\<close> starts with the lookup of the attribute
  \<^verbatim>\<open>setattr\<close> on the instance. The instance attributes are the two that \<^verbatim>\<open>__init__\<close>
  stores (and the two that \<^verbatim>\<open>RepeatClassifier.fit\<close> assigns); the class attributes are
  the methods. None is called \<^verbatim>\<open>setattr\<close>, so the lookup raises before anything is
  assigned.
\<close>

definition instance_attributes :: "string list" where
  "instance_attributes = [''classifier'', ''require_dense'', ''value_to_repeat'', ''return_value'']"

definition class_attributes :: "string list" where
  "class_attributes =
     [''__init__'', ''generate_data_subset'', ''ensure_1d'', ''fit'', ''predict'',
      ''get_params'', ''set_params'']"

definition getattr_self :: "string \<Rightarrow> py_error + string" where
  "getattr_self n =
     (if n \<in> set (instance_attributes @ class_attributes) then Inr n
      else Inl (AttributeError n))"

text \<open>
  The call of a found attribute is not followed further (it would end in \<open>TypeError\<close>
  here): \<open>getattr_self_setattr\<close> below shows that the lookup never succeeds.
\<close>

definition self_setattr :: "'s \<Rightarrow> string \<Rightarrow> pyval \<Rightarrow> 's self_result" where
  "self_setattr self parameter v =
     (case getattr_self ''setattr'' of
        Inl e \<Rightarrow> Inl (e, self)
      | Inr m \<Rightarrow> Inl (TypeError, self))"

text \<open>The loop \<^verbatim>\<open>for parameter, value in parameters.items()\<close>.\<close>

fun set_params_loop :: "'s \<Rightarrow> (string \<times> pyval) list \<Rightarrow> 's self_result" where
  "set_params_loop self [] = Inr self"
| "set_params_loop self ((parameter, v) # rest) =
     (case self_setattr self parameter v of
        Inl e \<Rightarrow> Inl e
      | Inr self' \<Rightarrow> set_params_loop self' rest)"

text \<open>\<^verbatim>\<open>set_params(self, **parameters)\<close>, the keyword arguments as a list of items.\<close>

definition set_params :: "'s \<Rightarrow> (string \<times> pyval) list \<Rightarrow> 's self_result" where
  "set_params self parameters =
     (if parameters = [] then Inr self else set_params_loop self parameters)"


section \<open>Label matrices\<close>

text \<open>
  The sparse matrix type of the external library, by what it represents: a storage
  format, a shape and the table of entries, row by row. The conversions change the
  format only.
\<close>

datatype sparse_format = CSR | CSC | COO | LIL | DOK

record spmatrix =
  fmt :: sparse_format
  n_rows :: nat
  n_cols :: nat
  cells :: "int list list"

definition wf_spmatrix :: "spmatrix \<Rightarrow> bool" where
  "wf_spmatrix m =
     (length (cells m) = n_rows m \<and> list_all (\<lambda>r. length r = n_cols m) (cells m))"

definition tocsr :: "spmatrix \<Rightarrow> spmatrix" where
  "tocsr m = m\<lparr>fmt := CSR\<rparr>"

definition tocsc :: "spmatrix \<Rightarrow> spmatrix" where
  "tocsc m = m\<lparr>fmt := CSC\<rparr>"

text \<open>\<^verbatim>\<open>y.todense()\<close>: the dense matrix, a sequence of its rows.\<close>

definition todense :: "spmatrix \<Rightarrow> int list list" where
  "todense m = cells m"

text \<open>
  An index into an axis of length \<open>n\<close>: a negative index counts from the end, an index
  out of range raises.
\<close>

definition py_index :: "nat \<Rightarrow> int \<Rightarrow> py_error + nat" where
  "py_index n i =
     (let j = (if i < 0 then i + int n else i)
      in if 0 \<le> j \<and> j < int n then Inr (nat j) else Inl IndexError)"

fun py_indices :: "nat \<Rightarrow> int list \<Rightarrow> py_error + nat list" where
  "py_indices n [] = Inr []"
| "py_indices n (i # rest) =
     (case py_index n i of
        Inl e \<Rightarrow> Inl e
      | Inr j \<Rightarrow> (case py_indices n rest of Inl e \<Rightarrow> Inl e | Inr js \<Rightarrow> Inr (j # js)))"

text \<open>\<^verbatim>\<open>m[subset, :]\<close> and \<^verbatim>\<open>m[:, subset]\<close> with a sequence of integers.\<close>

definition getitem_rows :: "spmatrix \<Rightarrow> int list \<Rightarrow> py_error + spmatrix" where
  "getitem_rows m subset' =
     (case py_indices (n_rows m) subset' of
        Inl e \<Rightarrow> Inl e
      | Inr js \<Rightarrow> Inr (m\<lparr>n_rows := length js, cells := map (\<lambda>j. cells m ! j) js\<rparr>))"

definition getitem_cols :: "spmatrix \<Rightarrow> int list \<Rightarrow> py_error + spmatrix" where
  "getitem_cols m subset' =
     (case py_indices (n_cols m) subset' of
        Inl e \<Rightarrow> Inl e
      | Inr js \<Rightarrow>
          Inr (m\<lparr>n_cols := length js, cells := map (\<lambda>r. map (\<lambda>j. r ! j) js) (cells m)\<rparr>))"

text \<open>
  \<^verbatim>\<open>generate_data_subset(self, y, subset, axis)\<close>; \<^verbatim>\<open>self\<close> is not used. The result
  \<open>Inr None\<close> is the Python value \<^verbatim>\<open>None\<close>.
\<close>

definition generate_data_subset ::
  "spmatrix \<Rightarrow> int list \<Rightarrow> int \<Rightarrow> py_error + spmatrix option" where
  "generate_data_subset y subset' axis =
     (let return_data = None
      in if axis = 1 then
           (case getitem_cols (tocsc y) subset' of Inl e \<Rightarrow> Inl e | Inr m \<Rightarrow> Inr (Some m))
         else if axis = 0 then
           (case getitem_rows (tocsr y) subset' of Inl e \<Rightarrow> Inl e | Inr m \<Rightarrow> Inr (Some m))
         else Inr return_data)"

text \<open>
  \<^verbatim>\<open>[t[0,0] for t in y.todense()]\<close>: iterating the dense matrix yields its rows, each a
  matrix of one row; \<^verbatim>\<open>t[0,0]\<close> is the entry in its column 0.
\<close>

fun item_0_0 :: "int list \<Rightarrow> py_error + int" where
  "item_0_0 [] = Inl IndexError"
| "item_0_0 (x # xs) = Inr x"

fun ensure_1d_rows :: "int list list \<Rightarrow> py_error + int list" where
  "ensure_1d_rows [] = Inr []"
| "ensure_1d_rows (t # ts) =
     (case item_0_0 t of
        Inl e \<Rightarrow> Inl e
      | Inr x \<Rightarrow> (case ensure_1d_rows ts of Inl e \<Rightarrow> Inl e | Inr xs \<Rightarrow> Inr (x # xs)))"

definition ensure_1d :: "spmatrix \<Rightarrow> py_error + int list" where
  "ensure_1d y = ensure_1d_rows (todense y)"


section \<open>RepeatClassifier\<close>

text \<open>
  Label rows are objects: the instance holds a reference to its stored row, and
  \<^verbatim>\<open>predict\<close> returns a sequence of references. The store is the list of all
  objects, a reference is a position in it, and a new object goes to the end. An object
  is a numeric array, a sparse row (a sparse matrix of one row), or an array of no
  dimension and of element type object, which holds one reference.
\<close>

type_synonym addr = nat

datatype obj = NdArray "int list" | SparseRow "int list" | ObjArray0 addr

type_synonym heap = "obj list"

definition alloc :: "heap \<Rightarrow> obj \<Rightarrow> addr \<times> heap" where
  "alloc h v = (length h, h @ [v])"

text \<open>
  \<^verbatim>\<open>np.copy(a)\<close> is \<^verbatim>\<open>np.array(a, copy=True)\<close>. A numeric array is copied: a new
  array with the same contents. A sparse row is no array and converts to none: the new
  object is an array of no dimension that holds the reference to the row itself. The
  copy of such an object array holds the same reference again. A reference that the
  program holds is a position of the store, \<open>a < length h\<close>; the theorems assume it.
\<close>

definition np_copy :: "heap \<Rightarrow> addr \<Rightarrow> addr \<times> heap" where
  "np_copy h a =
     (case h ! a of
        NdArray v \<Rightarrow> alloc h (NdArray v)
      | SparseRow v \<Rightarrow> alloc h (ObjArray0 a)
      | ObjArray0 r \<Rightarrow> alloc h (ObjArray0 r))"

text \<open>
  \<^verbatim>\<open>np.array(cs)\<close> on the list of copies, as the sequence of the rows of the result.
  A numeric copy becomes a row of its own in the new table, referred to by nothing
  else: the row is identified with the copy. An object array gives its element, the
  reference it holds.
\<close>

definition np_array :: "heap \<Rightarrow> addr list \<Rightarrow> addr list" where
  "np_array h cs = map (\<lambda>c. case h ! c of ObjArray0 r \<Rightarrow> r | v \<Rightarrow> c) cs"

record RepeatClassifier = MLClassifierBase +
  value_to_repeat :: "addr option"
  return_value :: "addr option"

text \<open>
  \<^verbatim>\<open>__init__(self, value_to_repeat = None)\<close> calls the base constructor without
  arguments and assigns nothing else; an attribute that was never assigned is \<open>None\<close>
  in the record.
\<close>

definition RepeatClassifier_init :: "'v \<Rightarrow> RepeatClassifier" where
  "RepeatClassifier_init v =
     (let base = MLClassifierBase_init None None
      in \<lparr>classifier = classifier base, require_dense = require_dense base,
          value_to_repeat = None, return_value = None\<rparr>)"

text \<open>
  What a subscript \<^verbatim>\<open>[0,:]\<close> is applied to: a matrix, or a bound method of a matrix
  (the value of \<^verbatim>\<open>y.tocsr\<close> without a call). A method object has no subscript.
\<close>

datatype subscripted = Matrix spmatrix | BoundMethod string spmatrix

fun getitem_row_0 :: "subscripted \<Rightarrow> py_error + int list" where
  "getitem_row_0 (Matrix m) =
     (case py_index (n_rows m) 0 of Inl e \<Rightarrow> Inl e | Inr j \<Rightarrow> Inr (cells m ! j))"
| "getitem_row_0 (BoundMethod name m) = Inl TypeError"

text \<open>
  \<^verbatim>\<open>np.full(y)\<close>: \<^verbatim>\<open>np.full\<close> has two required parameters, the shape and the fill
  value, so the call with one argument raises.
\<close>

definition np_full_1 :: "spmatrix \<Rightarrow> py_error + int list" where
  "np_full_1 y = Inl TypeError"

text \<open>
  \<^verbatim>\<open>fit(self, X, y)\<close>, statement by statement; \<^verbatim>\<open>copy.copy\<close> of the row, a sparse
  row, and the result of \<^verbatim>\<open>np.full\<close>, a numeric array, are new objects in the store.
  An exception leaves the attributes assigned before it.
\<close>

definition RepeatClassifier_fit ::
  "RepeatClassifier \<Rightarrow> heap \<Rightarrow> 'x \<Rightarrow> spmatrix \<Rightarrow> (RepeatClassifier \<times> heap) self_result" where
  "RepeatClassifier_fit self h X y =
     (case getitem_row_0 (BoundMethod ''tocsr'' y) of
        Inl e \<Rightarrow> Inl (e, (self, h))
      | Inr row \<Rightarrow>
          (let (a, h1) = alloc h (SparseRow row);
               self1 = self\<lparr>value_to_repeat := Some a\<rparr>
           in case np_full_1 y of
                Inl e \<Rightarrow> Inl (e, (self1, h1))
              | Inr full \<Rightarrow>
                  (let (b, h2) = alloc h1 (NdArray full)
                   in Inr (self1\<lparr>return_value := Some b\<rparr>, h2))))"

text \<open>
  The feature matrix: a dense table, whose \<^verbatim>\<open>len\<close> is its number of rows, or a
  sparse matrix, whose \<^verbatim>\<open>len\<close> raises.
\<close>

datatype 'f feature_matrix = Dense "'f list list" | Sparse spmatrix

fun py_len :: "'f feature_matrix \<Rightarrow> py_error + nat" where
  "py_len (Dense rows) = Inr (length rows)"
| "py_len (Sparse m) = Inl TypeError"

text \<open>
  The comprehension \<^verbatim>\<open>[np.copy(self.value_to_repeat) for x in xrange(n)]\<close>: each of
  the \<open>n\<close> rounds reads the attribute, which raises when it was never assigned, and
  calls \<^verbatim>\<open>np.copy\<close> on it. \<^verbatim>\<open>predict\<close> returns \<^verbatim>\<open>np.array\<close> of the list.
\<close>

fun predict_loop ::
  "RepeatClassifier \<Rightarrow> heap \<Rightarrow> nat \<Rightarrow> (py_error + addr list) \<times> heap" where
  "predict_loop self h 0 = (Inr [], h)"
| "predict_loop self h (Suc n) =
     (case value_to_repeat self of
        None \<Rightarrow> (Inl (AttributeError ''value_to_repeat''), h)
      | Some a \<Rightarrow>
          (let (c, h1) = np_copy h a
           in case predict_loop self h1 n of
                (Inl e, h2) \<Rightarrow> (Inl e, h2)
              | (Inr cs, h2) \<Rightarrow> (Inr (c # cs), h2)))"

definition RepeatClassifier_predict ::
  "RepeatClassifier \<Rightarrow> heap \<Rightarrow> 'f feature_matrix \<Rightarrow> (py_error + addr list) \<times> heap" where
  "RepeatClassifier_predict self h X =
     (case py_len X of
        Inl e \<Rightarrow> (Inl e, h)
      | Inr n \<Rightarrow>
          (case predict_loop self h n of
             (Inl e, h1) \<Rightarrow> (Inl e, h1)
           | (Inr cs, h1) \<Rightarrow> (Inr (np_array h1 cs), h1)))"


section \<open>Example inputs\<close>

text \<open>The label matrix of the example scenario: three samples, two labels.\<close>

definition y_example :: spmatrix where
  "y_example = \<lparr>fmt = COO, n_rows = 3, n_cols = 2, cells = [[1, 0], [0, 1], [1, 1]]\<rparr>"

text \<open>
  The state that \<^verbatim>\<open>fit\<close> is written to reach on that matrix: the attribute
  \<^verbatim>\<open>value_to_repeat\<close> refers to the object at position 0 of the store, which is
  the sparse row 0 of the matrix in \<open>sparse_store\<close> and a numeric array with the same
  entries in \<open>array_store\<close>.
\<close>

definition fitted_example :: RepeatClassifier where
  "fitted_example =
     \<lparr>classifier = PyNone, require_dense = PyBool False,
      value_to_repeat = Some 0, return_value = None\<rparr>"


definition array_store :: heap where
  "array_store = [NdArray [1, 0]]"


section \<open>Name and attribute lookups\<close>

lemma lookup_global_value: "lookup_global ''value'' = Inl (NameError ''value'')"
  by (simp add: lookup_global_def module_globals_def)

lemma lookup_global_key: "lookup_global ''key'' = Inl (NameError ''key'')"
  by (simp add: lookup_global_def module_globals_def)

lemma getattr_self_setattr: "getattr_self ''setattr'' = Inl (AttributeError ''setattr'')"
  by (simp add: getattr_self_def instance_attributes_def class_attributes_def)

lemma self_setattr_raises: "self_setattr self p v = Inl (AttributeError ''setattr'', self)"
  by (simp add: self_setattr_def getattr_self_setattr)


section \<open>The abstract methods\<close>

text \<open>
  C6. On every instance of the base class and for every input, \<^verbatim>\<open>fit\<close> and
  \<^verbatim>\<open>predict\<close> raise \<^verbatim>\<open>NotImplementedError\<close>, and the instance is left as it was.
\<close>

theorem base_fit_predict_not_implemented:
  "MLClassifierBase_fit self X y
     = Inl (NotImplementedError ''MLClassifierBase::fit()'', self) \<and>
   MLClassifierBase_predict self X
     = Inl (NotImplementedError ''MLClassifierBase::predict()'', self)"
  by (simp add: MLClassifierBase_fit_def MLClassifierBase_predict_def)


section \<open>Parameter introspection\<close>

text \<open>
  C7. For an instance constructed with the inner estimator \<open>c\<close> and the flag \<open>r\<close>,
  \<^verbatim>\<open>get_params(deep=False)\<close> returns the dictionary with the two keys
  \<^verbatim>\<open>classifier\<close> and \<^verbatim>\<open>require_dense\<close>, bound to \<open>c\<close> and \<open>r\<close>, and no other key.
\<close>

theorem get_params_shallow:
  "get_params (MLClassifierBase_init (Some c) (Some r)) False
     = Inr [''classifier'' \<mapsto> c, ''require_dense'' \<mapsto> r] \<and>
   dom [''classifier'' \<mapsto> c, ''require_dense'' \<mapsto> r] = {''classifier'', ''require_dense''}"
  by (auto simp add: get_params_def MLClassifierBase_init_def)

text \<open>
  With \<^verbatim>\<open>deep=True\<close> the result is the same two entries when the inner estimator has
  no \<^verbatim>\<open>get_params\<close>; when it has one, the name \<^verbatim>\<open>value\<close> is read, which is bound
  nowhere, and the call raises whatever the estimator's parameters are.
\<close>

lemma get_params_deep_plain:
  "\<not> has_get_params (classifier self) \<Longrightarrow>
   get_params self True
     = Inr [''classifier'' \<mapsto> classifier self, ''require_dense'' \<mapsto> require_dense self]"
  by (simp add: get_params_def)

lemma get_params_deep_estimator:
  "has_get_params (classifier self) \<Longrightarrow> get_params self True = Inl (NameError ''value'')"
  by (simp add: get_params_def lookup_global_value)

text \<open>
  C4. The claim is that deep introspection returns the own parameters together with the
  inner estimator's, keyed \<^verbatim>\<open>classifier__<name>\<close>. On an instance whose inner estimator
  has \<^verbatim>\<open>get_params\<close>, returning the one parameter \<^verbatim>\<open>C = 1\<close>, the call
  \<^verbatim>\<open>get_params(deep=True)\<close> returns no dictionary: it raises \<^verbatim>\<open>NameError\<close> for
  \<^verbatim>\<open>value\<close>.
\<close>

theorem get_params_deep_raises:
  "get_params (MLClassifierBase_init (Some (Estimator [(''C'', PyInt 1)])) None) True
     = Inl (NameError ''value'')"
  by (simp add: get_params_def MLClassifierBase_init_def lookup_global_def module_globals_def)

lemma set_params_empty: "set_params self [] = Inr self"
  by (simp add: set_params_def)

lemma set_params_nonempty:
  "ps \<noteq> [] \<Longrightarrow> set_params self ps = Inl (AttributeError ''setattr'', self)"
  by (cases ps) (auto simp add: set_params_def self_setattr_raises)

text \<open>
  C2. The claim is that \<^verbatim>\<open>set_params\<close> assigns every given pair and returns
  \<^verbatim>\<open>self\<close>, so that \<^verbatim>\<open>set_params(require_dense=True)\<close> makes \<^verbatim>\<open>require_dense\<close> true.
  On a freshly constructed instance that call raises \<^verbatim>\<open>AttributeError\<close> for
  \<^verbatim>\<open>setattr\<close> and assigns nothing: \<^verbatim>\<open>get_params()\<close> afterwards still reports the
  default \<^verbatim>\<open>False\<close>.
\<close>

theorem set_params_require_dense_raises:
  "set_params (MLClassifierBase_init None None) [(''require_dense'', PyBool True)]
     = Inl (AttributeError ''setattr'', MLClassifierBase_init None None) \<and>
   get_params (MLClassifierBase_init None None) True
     = Inr [''classifier'' \<mapsto> PyNone, ''require_dense'' \<mapsto> PyBool False]"
  by (simp add: set_params_def self_setattr_def getattr_self_def instance_attributes_def
      class_attributes_def get_params_def MLClassifierBase_init_def)


section \<open>Subsetting a label matrix\<close>

lemma py_indices_in_range:
  "\<forall>i\<in>set S. 0 \<le> i \<and> i < int n \<Longrightarrow> py_indices n S = Inr (map nat S)"
  by (induction S) (simp_all add: py_index_def)

lemma py_indices_out_of_range:
  "i \<in> set S \<Longrightarrow> i < - int n \<or> int n \<le> i \<Longrightarrow> py_indices n S = Inl IndexError"
  by (induction S) (auto simp add: py_index_def Let_def split: sum.splits)

lemma getitem_rows_in_range:
  assumes "\<forall>i\<in>set S. 0 \<le> i \<and> i < int (n_rows m)"
  shows "getitem_rows m S
    = Inr (m\<lparr>n_rows := length S, cells := map (\<lambda>i. cells m ! nat i) S\<rparr>)"
  using py_indices_in_range [OF assms] by (simp add: getitem_rows_def comp_def)

lemma getitem_cols_in_range:
  assumes "\<forall>i\<in>set S. 0 \<le> i \<and> i < int (n_cols m)"
  shows "getitem_cols m S
    = Inr (m\<lparr>n_cols := length S, cells := map (\<lambda>r. map (\<lambda>i. r ! nat i) S) (cells m)\<rparr>)"
  using py_indices_in_range [OF assms] by (simp add: getitem_cols_def comp_def)

text \<open>An index outside the axis makes the call raise instead.\<close>

lemma generate_data_subset_index_error:
  assumes "i \<in> set S" and "i < - int (n_rows y) \<or> int (n_rows y) \<le> i"
  shows "generate_data_subset y S 0 = Inl IndexError"
proof -
  have "py_indices (n_rows (tocsr y)) S = Inl IndexError"
    using py_indices_out_of_range [OF assms] by (simp add: tocsr_def)
  then show ?thesis
    by (simp add: generate_data_subset_def getitem_rows_def)
qed

lemma wf_y_example: "wf_spmatrix y_example"
  by (simp add: wf_spmatrix_def y_example_def)

text \<open>
  C3. For a well-formed label matrix \<open>y\<close> and a sequence \<open>S\<close> of indices into the
  chosen axis, \<^verbatim>\<open>generate_data_subset\<close> with \<^verbatim>\<open>axis=0\<close> returns a sparse (CSR)
  matrix with \<open>length S\<close> rows, whose row \<open>k\<close> is the row \<open>S ! k\<close> of \<open>y\<close>; with
  \<^verbatim>\<open>axis=1\<close> it returns a sparse (CSC) matrix with \<open>length S\<close> columns, whose column
  \<open>k\<close> is the column \<open>S ! k\<close> of \<open>y\<close>. The other dimension is that of \<open>y\<close>.
\<close>

theorem generate_data_subset_selects:
  assumes "wf_spmatrix y"
  shows "((\<forall>i\<in>set S. 0 \<le> i \<and> i < int (n_rows y)) \<longrightarrow>
          (\<exists>r. generate_data_subset y S 0 = Inr (Some r) \<and> wf_spmatrix r \<and> fmt r = CSR \<and>
               n_rows r = length S \<and> n_cols r = n_cols y \<and>
               (\<forall>k<length S. cells r ! k = cells y ! nat (S ! k)))) \<and>
         ((\<forall>i\<in>set S. 0 \<le> i \<and> i < int (n_cols y)) \<longrightarrow>
          (\<exists>r. generate_data_subset y S 1 = Inr (Some r) \<and> wf_spmatrix r \<and> fmt r = CSC \<and>
               n_rows r = n_rows y \<and> n_cols r = length S \<and>
               (\<forall>i<n_rows y. \<forall>k<length S. cells r ! i ! k = cells y ! i ! nat (S ! k))))"
proof (intro conjI impI)
  assume rng: "\<forall>i\<in>set S. 0 \<le> i \<and> i < int (n_rows y)"
  let ?r = "y\<lparr>fmt := CSR, n_rows := length S, cells := map (\<lambda>i. cells y ! nat i) S\<rparr>"
  have rng': "\<forall>i\<in>set S. 0 \<le> i \<and> i < int (n_rows (tocsr y))"
    using rng by (simp add: tocsr_def)
  have res: "generate_data_subset y S 0 = Inr (Some ?r)"
    using getitem_rows_in_range [OF rng'] by (simp add: generate_data_subset_def tocsr_def)
  have len: "\<And>i. i \<in> set S \<Longrightarrow> length (cells y ! nat i) = n_cols y"
  proof -
    fix i assume "i \<in> set S"
    then have "nat i < length (cells y)"
      using rng assms by (auto simp add: wf_spmatrix_def)
    then have "cells y ! nat i \<in> set (cells y)" by simp
    then show "length (cells y ! nat i) = n_cols y"
      using assms by (simp add: wf_spmatrix_def list_all_iff)
  qed
  have wf: "wf_spmatrix ?r"
    using len by (simp add: wf_spmatrix_def list_all_iff)
  show "\<exists>r. generate_data_subset y S 0 = Inr (Some r) \<and> wf_spmatrix r \<and> fmt r = CSR \<and>
            n_rows r = length S \<and> n_cols r = n_cols y \<and>
            (\<forall>k<length S. cells r ! k = cells y ! nat (S ! k))"
    using res wf by (intro exI [of _ ?r]) simp
next
  assume rng: "\<forall>i\<in>set S. 0 \<le> i \<and> i < int (n_cols y)"
  let ?r = "y\<lparr>fmt := CSC, n_cols := length S,
               cells := map (\<lambda>r. map (\<lambda>i. r ! nat i) S) (cells y)\<rparr>"
  have rng': "\<forall>i\<in>set S. 0 \<le> i \<and> i < int (n_cols (tocsc y))"
    using rng by (simp add: tocsc_def)
  have res: "generate_data_subset y S 1 = Inr (Some ?r)"
    using getitem_cols_in_range [OF rng'] by (simp add: generate_data_subset_def tocsc_def)
  have wf: "wf_spmatrix ?r"
    using assms by (simp add: wf_spmatrix_def list_all_iff)
  have ent: "\<forall>i<n_rows y. \<forall>k<length S. cells ?r ! i ! k = cells y ! i ! nat (S ! k)"
    using assms by (simp add: wf_spmatrix_def)
  show "\<exists>r. generate_data_subset y S 1 = Inr (Some r) \<and> wf_spmatrix r \<and> fmt r = CSC \<and>
            n_rows r = n_rows y \<and> n_cols r = length S \<and>
            (\<forall>i<n_rows y. \<forall>k<length S. cells r ! i ! k = cells y ! i ! nat (S ! k))"
    using res wf ent by (intro exI [of _ ?r]) simp
qed

theorem generate_data_subset_selects_witness:
  "generate_data_subset y_example [1, 0, 1] 0
     = Inr (Some \<lparr>fmt = CSR, n_rows = 3, n_cols = 2, cells = [[0, 1], [1, 0], [0, 1]]\<rparr>) \<and>
   generate_data_subset y_example [1, 0, 1] 1
     = Inr (Some \<lparr>fmt = CSC, n_rows = 3, n_cols = 3,
                  cells = [[0, 1, 0], [1, 0, 1], [1, 1, 1]]\<rparr>)"
proof -
  have r: "\<forall>i\<in>set [1, 0, 1 :: int]. 0 \<le> i \<and> i < int (n_rows y_example)"
    by (simp add: y_example_def)
  have c: "\<forall>i\<in>set [1, 0, 1 :: int]. 0 \<le> i \<and> i < int (n_cols y_example)"
    by (simp add: y_example_def)
  from generate_data_subset_selects [OF wf_y_example, of "[1, 0, 1]"] r c
  obtain r0 r1 where
    r0: "generate_data_subset y_example [1, 0, 1] 0 = Inr (Some r0)" and
    r1: "generate_data_subset y_example [1, 0, 1] 1 = Inr (Some r1)"
    by blast
  have e0: "generate_data_subset y_example [1, 0, 1] 0
     = Inr (Some \<lparr>fmt = CSR, n_rows = 3, n_cols = 2, cells = [[0, 1], [1, 0], [0, 1]]\<rparr>)"
    by (simp add: generate_data_subset_def getitem_rows_def tocsr_def py_index_def
        y_example_def)
  have e1: "generate_data_subset y_example [1, 0, 1] 1
     = Inr (Some \<lparr>fmt = CSC, n_rows = 3, n_cols = 3,
                  cells = [[0, 1, 0], [1, 0, 1], [1, 1, 1]]\<rparr>)"
    by (simp add: generate_data_subset_def getitem_cols_def tocsc_def py_index_def
        y_example_def)
  from r0 r1 e0 e1 show ?thesis by simp
qed

text \<open>
  C5. For every label matrix, every index sequence and every axis other than 0 and 1,
  \<^verbatim>\<open>generate_data_subset\<close> returns \<^verbatim>\<open>None\<close>: no matrix, and no exception.
\<close>

theorem generate_data_subset_other_axis:
  "axis \<noteq> 0 \<Longrightarrow> axis \<noteq> 1 \<Longrightarrow> generate_data_subset y S axis = Inr None"
  by (simp add: generate_data_subset_def)

theorem generate_data_subset_other_axis_witness:
  "generate_data_subset y_example [0, 7] 2 = Inr None"
  using generate_data_subset_other_axis [of 2 y_example "[0, 7]"] by simp


section \<open>Flattening a one-column matrix\<close>

lemma ensure_1d_rows_single:
  "list_all (\<lambda>r. length r = Suc 0) rows \<Longrightarrow>
   \<exists>xs. ensure_1d_rows rows = Inr xs \<and> length xs = length rows \<and>
        (\<forall>i<length rows. rows ! i = [xs ! i])"
proof (induction rows)
  case Nil
  then show ?case by simp
next
  case (Cons t ts)
  from Cons.prems obtain x where t: "t = [x]"
    by (cases t) auto
  from Cons obtain xs where xs: "ensure_1d_rows ts = Inr xs" "length xs = length ts"
      "\<forall>i<length ts. ts ! i = [xs ! i]"
    by auto
  have "\<forall>i<length (t # ts). (t # ts) ! i = [(x # xs) ! i]"
    using t xs(3) by (auto simp add: nth_Cons split: nat.splits)
  then show ?case
    using t xs by (intro exI [of _ "x # xs"]) simp
qed

text \<open>
  C8. For a well-formed label matrix of one column, \<^verbatim>\<open>ensure_1d\<close> returns a flat
  sequence as long as the matrix has rows, whose element \<open>i\<close> is the single entry of
  row \<open>i\<close>.
\<close>

theorem ensure_1d_one_column:
  assumes "wf_spmatrix y" and "n_cols y = 1"
  shows "\<exists>xs. ensure_1d y = Inr xs \<and> length xs = n_rows y \<and>
              (\<forall>i<n_rows y. cells y ! i = [xs ! i])"
proof -
  have "list_all (\<lambda>r. length r = Suc 0) (cells y)"
    using assms by (simp add: wf_spmatrix_def)
  from ensure_1d_rows_single [OF this] show ?thesis
    using assms(1) by (simp add: ensure_1d_def todense_def wf_spmatrix_def)
qed

theorem ensure_1d_one_column_witness:
  "ensure_1d \<lparr>fmt = CSR, n_rows = 3, n_cols = 1, cells = [[1], [0], [1]]\<rparr> = Inr [1, 0, 1]"
proof -
  let ?y = "\<lparr>fmt = CSR, n_rows = 3, n_cols = 1, cells = [[1], [0], [1]]\<rparr>"
  have "wf_spmatrix ?y" and "n_cols ?y = 1"
    by (simp_all add: wf_spmatrix_def)
  from ensure_1d_one_column [OF this] obtain xs where
    "ensure_1d ?y = Inr xs" by blast
  moreover have "ensure_1d ?y = Inr [1, 0, 1]"
    by (simp add: ensure_1d_def todense_def)
  ultimately show ?thesis by simp
qed

text \<open>On a wider matrix the call returns the first column and drops the others.\<close>

lemma ensure_1d_wider: "ensure_1d y_example = Inr [1, 0, 1]"
  by (simp add: ensure_1d_def todense_def y_example_def)


section \<open>RepeatClassifier: construction and fit\<close>

text \<open>
  C10. Whatever argument \<open>v\<close> the constructor is given, the new instance has the base
  defaults \<^verbatim>\<open>classifier = None\<close> and \<^verbatim>\<open>require_dense = False\<close>, and neither a
  stored row nor a \<^verbatim>\<open>return_value\<close>: \<open>v\<close> is stored nowhere.
\<close>

theorem RepeatClassifier_init_ignores_argument:
  "RepeatClassifier_init v
     = \<lparr>classifier = PyNone, require_dense = PyBool False,
        value_to_repeat = None, return_value = None\<rparr>"
  by (simp add: RepeatClassifier_init_def MLClassifierBase_init_def)

text \<open>
  The first statement of \<^verbatim>\<open>fit\<close> subscripts the method object \<^verbatim>\<open>y.tocsr\<close>, so
  \<^verbatim>\<open>fit\<close> raises on every input and stores nothing.
\<close>

lemma RepeatClassifier_fit_raises:
  "RepeatClassifier_fit self h X y = Inl (TypeError, (self, h))"
  by (simp add: RepeatClassifier_fit_def)

text \<open>
  C1. The claim is that \<^verbatim>\<open>fit(X, y)\<close> followed by \<^verbatim>\<open>predict(X2)\<close> returns one copy
  of row 0 of \<open>y\<close> per sample of \<open>X2\<close>. With the label matrix of the example scenario and
  a table \<open>X2\<close> of four samples, \<^verbatim>\<open>fit\<close> raises \<^verbatim>\<open>TypeError\<close> and leaves the instance
  untrained, and \<^verbatim>\<open>predict(X2)\<close> on that instance raises \<^verbatim>\<open>AttributeError\<close>: no
  sequence of four rows \<open>[1, 0]\<close> is returned.
\<close>

theorem fit_example_raises:
  "RepeatClassifier_fit (RepeatClassifier_init PyNone) []
       (Dense [[0::int], [0], [0]]) y_example
     = Inl (TypeError, (RepeatClassifier_init PyNone, [])) \<and>
   RepeatClassifier_predict (RepeatClassifier_init PyNone) []
       (Dense [[0::int], [0], [0], [0]])
     = (Inl (AttributeError ''value_to_repeat''), [])"
  by (simp add: RepeatClassifier_fit_def RepeatClassifier_init_def MLClassifierBase_init_def
      RepeatClassifier_predict_def)


section \<open>RepeatClassifier: predict\<close>

text \<open>Without a stored row, only an empty input gets an answer.\<close>

lemma predict_untrained:
  "value_to_repeat self = None \<Longrightarrow>
   RepeatClassifier_predict self h (Dense rows)
     = (if rows = [] then (Inr [], h) else (Inl (AttributeError ''value_to_repeat''), h))"
  by (cases rows) (simp_all add: RepeatClassifier_predict_def np_array_def)

lemma predict_sparse_input:
  "RepeatClassifier_predict self h (Sparse m) = (Inl TypeError, h)"
  by (simp add: RepeatClassifier_predict_def)

text \<open>
  With a stored sparse row at \<open>a\<close>, each round of the comprehension adds an object
  array that holds \<open>a\<close>, and \<^verbatim>\<open>np.array\<close> takes \<open>a\<close> out of each: every returned row
  is the stored row itself.
\<close>

lemma predict_loop_sparse:
  "value_to_repeat self = Some a \<Longrightarrow> a < length h \<Longrightarrow> h ! a = SparseRow v \<Longrightarrow>
   predict_loop self h n
     = (Inr [length h ..< length h + n], h @ replicate n (ObjArray0 a))"
proof (induction n arbitrary: h)
  case 0
  then show ?case by simp
next
  case (Suc n)
  let ?h1 = "h @ [ObjArray0 a]"
  have a1: "a < length ?h1" using Suc.prems by simp
  have same: "?h1 ! a = SparseRow v" using Suc.prems by (simp add: nth_append)
  have step: "predict_loop self ?h1 n
      = (Inr [length ?h1 ..< length ?h1 + n], ?h1 @ replicate n (ObjArray0 a))"
    using Suc.IH [OF Suc.prems(1) a1 same] .
  have upt: "length h # [Suc (length h) ..< Suc (length h + n)]
      = [length h ..< length h + Suc n]"
    by (simp add: upt_conv_Cons)
  show ?case
    using Suc.prems step upt
    by (simp add: np_copy_def alloc_def replicate_app_Cons_same)
qed

lemma predict_sparse_row:
  assumes "value_to_repeat self = Some a" and "a < length h" and "h ! a = SparseRow v"
    and "py_len X = Inr n"
  shows "RepeatClassifier_predict self h X
    = (Inr (replicate n a), h @ replicate n (ObjArray0 a))"
proof -
  have "np_array (h @ replicate n (ObjArray0 a)) [length h ..< length h + n]
      = replicate n a"
    by (rule nth_equalityI) (simp_all add: np_array_def nth_append)
  then show ?thesis
    using assms by (simp add: RepeatClassifier_predict_def predict_loop_sparse)
qed

text \<open>
  With a stored numeric array at \<open>a\<close>, the rounds add \<open>n\<close> copies of it, and the
  returned rows are these copies: pairwise different objects, none of them the stored
  one.
\<close>

lemma predict_loop_array:
  "value_to_repeat self = Some a \<Longrightarrow> a < length h \<Longrightarrow> h ! a = NdArray v \<Longrightarrow>
   predict_loop self h n
     = (Inr [length h ..< length h + n], h @ replicate n (NdArray v))"
proof (induction n arbitrary: h)
  case 0
  then show ?case by simp
next
  case (Suc n)
  let ?h1 = "h @ [NdArray v]"
  have a1: "a < length ?h1" using Suc.prems by simp
  have same: "?h1 ! a = NdArray v" using Suc.prems by (simp add: nth_append)
  have step: "predict_loop self ?h1 n
      = (Inr [length ?h1 ..< length ?h1 + n], ?h1 @ replicate n (NdArray v))"
    using Suc.IH [OF Suc.prems(1) a1 same] .
  have upt: "length h # [Suc (length h) ..< Suc (length h + n)]
      = [length h ..< length h + Suc n]"
    by (simp add: upt_conv_Cons)
  show ?case
    using Suc.prems step upt
    by (simp add: np_copy_def alloc_def replicate_app_Cons_same)
qed

lemma predict_array_row:
  assumes "value_to_repeat self = Some a" and "a < length h" and "h ! a = NdArray v"
    and "py_len X = Inr n"
  shows "RepeatClassifier_predict self h X
    = (Inr [length h ..< length h + n], h @ replicate n (NdArray v))"
proof -
  have "np_array (h @ replicate n (NdArray v)) [length h ..< length h + n]
      = [length h ..< length h + n]"
    by (rule nth_equalityI) (simp_all add: np_array_def nth_append)
  then show ?thesis
    using assms by (simp add: RepeatClassifier_predict_def predict_loop_array)
qed

lemma predict_array_example:
  "RepeatClassifier_predict fitted_example array_store (Dense [[5::int], [6]])
     = (Inr [1, 2], [NdArray [1, 0], NdArray [1, 0], NdArray [1, 0]])"
  by (simp add: RepeatClassifier_predict_def fitted_example_def array_store_def
      np_copy_def alloc_def np_array_def numeral_2_eq_2)


end
